theory Spec2Isabelle
  imports Main
begin

section \<open>Data model\<close>

text \<open>
  Identifiers (Python \<open>uuid.UUID\<close>) and timestamps are opaque; natural numbers stand
  for them. Python strings are modelled as \<open>string\<close>, one \<open>char\<close> per code point,
  which covers the code points below 256.
\<close>

type_synonym uuid = nat
type_synonym datetime = nat

subsection \<open>The lab state schema (schemas/lab\_state.py)\<close>

datatype proficiency = Expert | Competent | Learning
datatype confidence = High | Medium | Low
datatype outcome = Success | Partial | Failed

record equipment =
  eq_name :: string
  capabilities :: "string list"
  limitations :: "string option"

record technique =
  tq_name :: string
  proficiency :: proficiency
  tq_notes :: "string option"

record expertise =
  domain :: string
  confidence :: confidence

record organism =
  org_name :: string
  strains :: "string list"
  org_notes :: "string option"

record reagent =
  rg_name :: string
  quantity :: "string option"
  rg_notes :: "string option"

record experiment_summary =
  es_technique :: string
  outcome :: outcome
  insight :: string

record resource_constraints =
  budget_notes :: "string option"
  time_constraints :: "string option"
  personnel_notes :: "string option"

record lab_state_data =
  equipment :: "equipment list"
  techniques :: "technique list"
  expertise :: "expertise list"
  organisms :: "organism list"
  reagents :: "reagent list"
  experimental_history :: "experiment_summary list"
  resource_constraints :: resource_constraints
  signal_count :: int

text \<open>\<open>Field(..., min_length=lo, max_length=hi)\<close> on a string or a list.\<close>

definition length_between :: "nat \<Rightarrow> nat \<Rightarrow> 'a list \<Rightarrow> bool" where
  "length_between lo hi xs = (lo \<le> length xs \<and> length xs \<le> hi)"

text \<open>\<open>str | None = Field(default=None, max_length=hi)\<close>.\<close>

definition opt_max_length :: "nat \<Rightarrow> string option \<Rightarrow> bool" where
  "opt_max_length hi v = (case v of None \<Rightarrow> True | Some s \<Rightarrow> length s \<le> hi)"

definition equipment_ok :: "equipment \<Rightarrow> bool" where
  "equipment_ok e =
     (length_between 1 200 (eq_name e) \<and> length (capabilities e) \<le> 20
      \<and> opt_max_length 500 (limitations e))"

definition technique_ok :: "technique \<Rightarrow> bool" where
  "technique_ok t = (length_between 1 200 (tq_name t) \<and> opt_max_length 500 (tq_notes t))"

definition expertise_ok :: "expertise \<Rightarrow> bool" where
  "expertise_ok x = length_between 1 200 (domain x)"

definition organism_ok :: "organism \<Rightarrow> bool" where
  "organism_ok g =
     (length_between 1 200 (org_name g) \<and> length (strains g) \<le> 20
      \<and> opt_max_length 500 (org_notes g))"

definition reagent_ok :: "reagent \<Rightarrow> bool" where
  "reagent_ok r =
     (length_between 1 200 (rg_name r) \<and> opt_max_length 100 (quantity r)
      \<and> opt_max_length 500 (rg_notes r))"

definition experiment_summary_ok :: "experiment_summary \<Rightarrow> bool" where
  "experiment_summary_ok x =
     (length_between 1 200 (es_technique x) \<and> length_between 1 500 (insight x))"

definition resource_constraints_ok :: "resource_constraints \<Rightarrow> bool" where
  "resource_constraints_ok c =
     (opt_max_length 500 (budget_notes c) \<and> opt_max_length 500 (time_constraints c)
      \<and> opt_max_length 500 (personnel_notes c))"

text \<open>The field constraints of \<open>LabStateData\<close> and of the models nested in it.\<close>

definition field_constraints_ok :: "lab_state_data \<Rightarrow> bool" where
  "field_constraints_ok d =
     (length (equipment d) \<le> 50 \<and> list_all equipment_ok (equipment d)
      \<and> length (techniques d) \<le> 50 \<and> list_all technique_ok (techniques d)
      \<and> length (expertise d) \<le> 30 \<and> list_all expertise_ok (expertise d)
      \<and> length (organisms d) \<le> 20 \<and> list_all organism_ok (organisms d)
      \<and> length (reagents d) \<le> 50 \<and> list_all reagent_ok (reagents d)
      \<and> length (experimental_history d) \<le> 30
      \<and> list_all experiment_summary_ok (experimental_history d)
      \<and> resource_constraints_ok (resource_constraints d)
      \<and> 0 \<le> signal_count d)"

text \<open>\<open>create_empty_state\<close>: \<open>LabStateData(signal_count=0).model_dump()\<close>, every other
  field at its default.\<close>

definition create_empty_state :: lab_state_data where
  "create_empty_state =
     \<lparr>equipment = [], techniques = [], expertise = [], organisms = [], reagents = [],
      experimental_history = [],
      resource_constraints =
        \<lparr>budget_notes = None, time_constraints = None, personnel_notes = None\<rparr>,
      signal_count = 0\<rparr>"

subsection \<open>JSON values\<close>

text \<open>What \<open>json.loads\<close> returns and what a JSONB column holds. A float is carried as
  its literal text and never inspected.\<close>

datatype json =
  JNull | JBool bool | JInt int | JFloat string | JStr string
  | JList "json list" | JDict "(string \<times> json) list"

subsection \<open>Tables (models/)\<close>

text \<open>
  The rows keep the columns the distillation engine reads or writes. The
  server-generated primary keys of \<open>lab_states\<close> and \<open>distillation_runs\<close> and the
  \<open>started_at\<close>/\<open>created_at\<close> defaults of those two tables are left out. The column
  \<open>state\<close> only ever receives \<open>validated_state.model_dump()\<close>, so it is modelled by the
  validated record itself; the range of the \<open>Integer\<close> columns is not modelled.
\<close>

record raw_signal =
  sig_id :: uuid
  sig_lab_id :: uuid
  signal_type :: string
  content :: json
  processed :: bool
  created_at :: datetime

record lab_state =
  ls_lab_id :: uuid
  version :: int
  state :: lab_state_data
  token_count :: "int option"
  created_by :: "string option"

record distillation_run =
  run_lab_id :: uuid
  input_state_version :: "int option"
  output_state_version :: int
  signals_processed :: "uuid list"
  prompt_version :: string
  llm_model :: string
  completed_at :: "datetime option"
  status :: string

record db =
  lab_states :: "lab_state list"
  raw_signals :: "raw_signal list"
  distillation_runs :: "distillation_run list"

section \<open>Parsing the compression response\<close>

text \<open>Python's \<open>str.strip()\<close>: the white space of \<open>str.isspace\<close> below code point 256.\<close>

definition is_space :: "char \<Rightarrow> bool" where
  "is_space c =
     ((of_char c :: nat) \<in> set [0x09, 0x0A, 0x0B, 0x0C, 0x0D, 0x1C, 0x1D, 0x1E, 0x1F, 0x20,
        0x85, 0xA0])"

definition py_strip :: "string \<Rightarrow> string" where
  "py_strip s = rev (dropWhile is_space (rev (dropWhile is_space s)))"

text \<open>\<open>text.split("\n")\<close>: the lines of a text, at least one.\<close>

fun split_nl :: "string \<Rightarrow> string list" where
  "split_nl [] = [[]]"
| "split_nl (c # cs) =
     (if c = CHR 0x0A then [] # split_nl cs
      else (c # hd (split_nl cs)) # tl (split_nl cs))"

text \<open>\<open>"\n".join(lines)\<close>.\<close>

fun join_nl :: "string list \<Rightarrow> string" where
  "join_nl [] = []"
| "join_nl [l] = l"
| "join_nl (l # ls) = l @ CHR 0x0A # join_nl ls"

text \<open>A Python slice \<open>xs[start:stop]\<close> with step 1: a negative index counts from the
  end, and both indices are clamped to the list.\<close>

definition py_slice :: "'a list \<Rightarrow> int \<Rightarrow> int \<Rightarrow> 'a list" where
  "py_slice xs start stop =
     (let n = int (length xs);
          a = (if start < 0 then max 0 (n + start) else min n start);
          b = (if stop < 0 then max 0 (n + stop) else min n stop)
      in take (nat (b - a)) (drop (nat a) xs))"

definition fence :: string where
  "fence = [CHR 0x60, CHR 0x60, CHR 0x60]"

text \<open>\<open>response_text.startswith(prefix)\<close>.\<close>

definition startswith :: "string \<Rightarrow> string \<Rightarrow> bool" where
  "startswith s prefix = (take (length prefix) s = prefix)"

text \<open>Lines 155 to 161 of services/distillation.py: the text handed to \<open>json.loads\<close>.\<close>

definition response_json_text :: "string \<Rightarrow> string" where
  "response_json_text message_content =
     (let response_text = py_strip message_content
      in if startswith response_text fence
         then (let lines = split_nl response_text in join_nl (py_slice lines 1 (- 1)))
         else response_text)"

section \<open>External collaborators and settings\<close>

text \<open>The two settings of core/config.py that the engine reads, and the batch size
  it declares.\<close>

record settings =
  setting_llm_model :: string
  max_state_tokens :: int
  distillation_batch_size :: int

text \<open>
  What the engine calls outside the repository, as parameters:
  \<^item> \<open>acompletion\<close>: the completion call and the read of
    \<open>response.choices[0].message.content\<close>. It receives the model name and what the
    prompt is formatted from (the current state and, in order, the type and content of
    each signal); \<open>None\<close> when the call raises.
  \<^item> \<open>json_loads\<close>: \<open>json.loads\<close>, \<open>None\<close> when it raises.
  \<^item> \<open>model_fields\<close>: the type-directed part of \<open>LabStateData.model_validate\<close>
    (field types, literals, defaults), \<open>None\<close> when it rejects the value.
  \<^item> \<open>count_tokens\<close>: \<open>count_tokens(validated_state.model_dump_json())\<close>.
  \<^item> \<open>utcnow\<close>: \<open>datetime.now(UTC)\<close>.
\<close>

record services =
  acompletion :: "string \<Rightarrow> lab_state_data \<Rightarrow> (string \<times> json) list \<Rightarrow> string option"
  json_loads :: "string \<Rightarrow> json option"
  model_fields :: "json \<Rightarrow> lab_state_data option"
  count_tokens :: "lab_state_data \<Rightarrow> int"
  utcnow :: datetime

text \<open>What the \<open>try\<close> block of \<open>run_distillation\<close> can raise, and the two
  \<open>ValueError\<close>s that leave the function: \<open>"No signals found to process"\<close> and
  \<open>"Distillation failed: ..."\<close>, raised from its cause.\<close>

datatype cause = CompletionFailed | JSONDecodeError | ValidationError | IntegrityError

datatype error = NoSignalsFound | DistillationFailed cause

definition PROMPT_VERSION :: string where
  "PROMPT_VERSION = ''v1.0.0''"

section \<open>Storage operations\<close>

text \<open>\<open>select(LabState).where(lab_id == ...).order_by(version.desc()).limit(1)\<close>,
  \<open>scalar_one_or_none()\<close>.\<close>

definition latest_state :: "db \<Rightarrow> uuid \<Rightarrow> lab_state option" where
  "latest_state d lab_id =
     (case filter (\<lambda>r. ls_lab_id r = lab_id) (lab_states d) of
        [] \<Rightarrow> None
      | r # rs \<Rightarrow> Some (fold (\<lambda>x best. if version best < version x then x else best) rs r))"

text \<open>\<open>select(RawSignal).where(RawSignal.id.in_(signal_ids))\<close>.\<close>

definition select_signals :: "db \<Rightarrow> uuid list \<Rightarrow> raw_signal list" where
  "select_signals d signal_ids = filter (\<lambda>s. sig_id s \<in> set signal_ids) (raw_signals d)"

text \<open>\<open>update(RawSignal).where(RawSignal.id.in_(signal_ids)).values(processed=True)\<close>.\<close>

definition mark_processed :: "db \<Rightarrow> uuid list \<Rightarrow> db" where
  "mark_processed d signal_ids =
     d\<lparr>raw_signals :=
         map (\<lambda>s. if sig_id s \<in> set signal_ids then s\<lparr>processed := True\<rparr> else s)
           (raw_signals d)\<rparr>"

text \<open>The insert of a \<open>lab_states\<close> row under
  \<open>UniqueConstraint("lab_id", "version")\<close>.\<close>

definition insert_lab_state :: "db \<Rightarrow> lab_state \<Rightarrow> cause + db" where
  "insert_lab_state d row =
     (if list_ex (\<lambda>r. ls_lab_id r = ls_lab_id row \<and> version r = version row) (lab_states d)
      then Inl IntegrityError
      else Inr (d\<lparr>lab_states := lab_states d @ [row]\<rparr>))"

text \<open>The two assignments to the run object, \<open>status\<close> and \<open>completed_at\<close>, on the row
  the session holds at position \<open>i\<close>.\<close>

definition finish_run :: "db \<Rightarrow> nat \<Rightarrow> string \<Rightarrow> datetime \<Rightarrow> db" where
  "finish_run d i st t =
     d\<lparr>distillation_runs :=
         (distillation_runs d)[i := (distillation_runs d ! i)\<lparr>completed_at := Some t, status := st\<rparr>]\<rparr>"

text \<open>\<open>LabStateData.model_validate\<close>: the field types, then the field constraints.\<close>

definition model_validate :: "services \<Rightarrow> json \<Rightarrow> lab_state_data option" where
  "model_validate sv j =
     (case model_fields sv j of
        None \<Rightarrow> None
      | Some d \<Rightarrow> if field_constraints_ok d then Some d else None)"

section \<open>The distillation engine (services/distillation.py)\<close>

text \<open>
  \<open>run_distillation\<close> works on the session's view of the database and returns it
  with the changes it flushed, together with the new state or the exception raised.
\<close>

definition run_distillation ::
  "services \<Rightarrow> settings \<Rightarrow> db \<Rightarrow> uuid \<Rightarrow> uuid list \<Rightarrow> db \<times> (error + lab_state)" where
  "run_distillation sv st session lab_id signal_ids =
     (let current_state = latest_state session lab_id;
          current_state_data =
            (case current_state of Some cs \<Rightarrow> state cs | None \<Rightarrow> create_empty_state);
          input_version = (case current_state of Some cs \<Rightarrow> Some (version cs) | None \<Rightarrow> None);
          new_version = (case current_state of Some cs \<Rightarrow> version cs + 1 | None \<Rightarrow> 1);
          signals = select_signals session signal_ids
      in if signals = [] then (session, Inl NoSignalsFound)
         else
           let distillation_run =
                 \<lparr>run_lab_id = lab_id, input_state_version = input_version,
                  output_state_version = new_version,
                  signals_processed = map sig_id signals,
                  prompt_version = PROMPT_VERSION, llm_model = setting_llm_model st,
                  completed_at = None, status = ''running''\<rparr>;
               i = length (distillation_runs session);
               session1 =
                 session\<lparr>distillation_runs := distillation_runs session @ [distillation_run]\<rparr>;
               failed = (\<lambda>s e. (finish_run s i ''failed'' (utcnow sv), Inl (DistillationFailed e)))
           in case acompletion sv (setting_llm_model st) current_state_data
                     (map (\<lambda>s. (signal_type s, content s)) signals) of
                None \<Rightarrow> failed session1 CompletionFailed
              | Some message_content \<Rightarrow>
                 (case json_loads sv (response_json_text message_content) of
                    None \<Rightarrow> failed session1 JSONDecodeError
                  | Some new_state_data \<Rightarrow>
                     (case model_validate sv new_state_data of
                        None \<Rightarrow> failed session1 ValidationError
                      | Some validated \<Rightarrow>
                         let validated_state =
                               validated\<lparr>signal_count :=
                                 signal_count current_state_data + int (length signals)\<rparr>;
                             tokens = count_tokens sv validated_state;
                             session2 =
                               (if tokens > max_state_tokens st then session1 else session1);
                             new_state =
                               \<lparr>ls_lab_id = lab_id, version = new_version,
                                state = validated_state, token_count = Some tokens,
                                created_by = Some ''system''\<rparr>;
                             session3 = mark_processed session2 signal_ids
                         in case insert_lab_state session3 new_state of
                              Inl e \<Rightarrow> failed session3 e
                            | Inr session4 \<Rightarrow>
                               (finish_run session4 i ''completed'' (utcnow sv),
                                Inr new_state))))"

text \<open>\<open>get_unprocessed_signals\<close>: the unprocessed signals of a lab, oldest first, at
  most \<open>limit\<close> of them.\<close>

definition get_unprocessed_signals :: "db \<Rightarrow> uuid \<Rightarrow> nat \<Rightarrow> raw_signal list" where
  "get_unprocessed_signals d lab_id limit =
     take limit
       (sort_key created_at
          (filter (\<lambda>s. sig_lab_id s = lab_id \<and> processed s = False) (raw_signals d)))"

section \<open>The task (tasks/distill.py)\<close>

datatype task_result =
  No_signals
  | Completed (res_lab_id: uuid) (new_version: int) (res_token_count: "int option")
      (res_signals_processed: nat)

text \<open>
  \<open>_run_distillation_async\<close> opens a session on the committed database and returns
  the database as committed when the session closes: \<open>session.commit()\<close> is reached only
  after \<open>run_distillation\<close> returned, and a session closed without a commit rolls back
  what it flushed. \<open>get_unprocessed_signals\<close> is called with its default \<open>limit\<close> of 10.
  The session comes from \<open>AsyncSessionLocal()\<close> as it is: the tenant setting that the
  row-level security policies of the schema read is set by \<open>get_db_with_tenant\<close> only,
  so the queries see what their own \<open>where\<close> clauses select.
\<close>

definition run_distillation_async ::
  "services \<Rightarrow> settings \<Rightarrow> db \<Rightarrow> uuid \<Rightarrow> uuid list option \<Rightarrow> db \<times> (error + task_result)" where
  "run_distillation_async sv st committed lab_id signal_ids =
     (let ids =
            (if signal_ids \<noteq> None \<and> signal_ids \<noteq> Some [] then signal_ids
             else
               let signals = get_unprocessed_signals committed lab_id 10
               in if signals = [] then None else Some (map sig_id signals))
      in case ids of
           None \<Rightarrow> (committed, Inr No_signals)
         | Some ids \<Rightarrow>
            (case run_distillation sv st committed lab_id ids of
               (session, Inl e) \<Rightarrow> (committed, Inl e)
             | (session, Inr new_state) \<Rightarrow>
                (session,
                 Inr (Completed lab_id (version new_state) (token_count new_state)
                        (length ids)))))"

section \<open>Notions used to state the properties\<close>

text \<open>The version a run computes for its output: 1 for a lab without a state,
  \<open>current_state.version + 1\<close> otherwise.\<close>

definition next_version :: "db \<Rightarrow> uuid \<Rightarrow> int" where
  "next_version d lab_id =
     (case latest_state d lab_id of Some cs \<Rightarrow> version cs + 1 | None \<Rightarrow> 1)"

text \<open>The state a run starts from: \<open>current_state_data\<close>.\<close>

definition current_data :: "db \<Rightarrow> uuid \<Rightarrow> lab_state_data" where
  "current_data d lab_id =
     (case latest_state d lab_id of Some cs \<Rightarrow> state cs | None \<Rightarrow> create_empty_state)"

text \<open>What the completion call is given for a run on \<open>d\<close>.\<close>

definition completion_of :: "services \<Rightarrow> settings \<Rightarrow> db \<Rightarrow> uuid \<Rightarrow> uuid list \<Rightarrow> string option" where
  "completion_of sv st d lab_id signal_ids =
     acompletion sv (setting_llm_model st) (current_data d lab_id)
       (map (\<lambda>s. (signal_type s, content s)) (select_signals d signal_ids))"

text \<open>The run row as reserved, with \<open>status = "running"\<close>.\<close>

definition run_row :: "settings \<Rightarrow> db \<Rightarrow> uuid \<Rightarrow> uuid list \<Rightarrow> distillation_run" where
  "run_row st d lab_id signal_ids =
     \<lparr>run_lab_id = lab_id,
      input_state_version = map_option version (latest_state d lab_id),
      output_state_version = next_version d lab_id,
      signals_processed = map sig_id (select_signals d signal_ids),
      prompt_version = PROMPT_VERSION, llm_model = setting_llm_model st,
      completed_at = None, status = ''running''\<rparr>"

text \<open>The versions of a lab's state rows, in the order of insertion, and the
  invariant: they are 1, 2, ..., n.\<close>

definition lab_versions :: "db \<Rightarrow> uuid \<Rightarrow> int list" where
  "lab_versions d lab_id = map version (filter (\<lambda>r. ls_lab_id r = lab_id) (lab_states d))"

definition versions_contiguous :: "db \<Rightarrow> uuid \<Rightarrow> bool" where
  "versions_contiguous d lab_id =
     (lab_versions d lab_id = map int [1..<Suc (length (lab_versions d lab_id))])"

section \<open>Example inputs\<close>

definition signal_count_text :: "string \<Rightarrow> string" where
  "signal_count_text digits =
     ''{'' @ CHR 0x22 # ''signal_count'' @ CHR 0x22 # '': '' @ digits @ ''}''"

text \<open>A stand-in for \<open>json.loads\<close> that knows three texts.\<close>

definition ex_json_loads :: "string \<Rightarrow> json option" where
  "ex_json_loads t =
     map_of
       [(''{}'', JDict []),
        (signal_count_text ''99'', JDict [(''signal_count'', JInt 99)]),
        (signal_count_text ''-1'', JDict [(''signal_count'', JInt (- 1))])] t"

text \<open>A stand-in for the typing of \<open>LabStateData\<close>: a dictionary, its
  \<open>signal_count\<close> an integer when present, every other field at its default.\<close>

definition ex_model_fields :: "json \<Rightarrow> lab_state_data option" where
  "ex_model_fields j =
     (case j of
        JDict kv \<Rightarrow>
          (case map_of kv ''signal_count'' of
             None \<Rightarrow> Some create_empty_state
           | Some (JInt n) \<Rightarrow> Some (create_empty_state\<lparr>signal_count := n\<rparr>)
           | Some _ \<Rightarrow> None)
      | _ \<Rightarrow> None)"

text \<open>Services whose completion call always gives \<open>reply\<close> (\<open>None\<close>: it raises) and
  whose token count is always 5000.\<close>

definition ex_services :: "string option \<Rightarrow> services" where
  "ex_services reply =
     \<lparr>acompletion = (\<lambda>model current signals. reply), json_loads = ex_json_loads,
      model_fields = ex_model_fields, count_tokens = (\<lambda>d. 5000), utcnow = 77\<rparr>"

text \<open>The defaults of core/config.py.\<close>

definition ex_settings :: settings where
  "ex_settings =
     \<lparr>setting_llm_model = ''claude-sonnet-4-20250514'', max_state_tokens = 2000,
      distillation_batch_size = 10\<rparr>"

definition ex_signal :: "uuid \<Rightarrow> uuid \<Rightarrow> bool \<Rightarrow> raw_signal" where
  "ex_signal i lab_id done =
     \<lparr>sig_id = i, sig_lab_id = lab_id, signal_type = ''experiment'', content = JDict [],
      processed = done, created_at = i\<rparr>"

definition ex_state :: "uuid \<Rightarrow> int \<Rightarrow> int \<Rightarrow> lab_state" where
  "ex_state lab_id v n =
     \<lparr>ls_lab_id = lab_id, version = v, state = create_empty_state\<lparr>signal_count := n\<rparr>,
      token_count = Some 10, created_by = Some ''system''\<rparr>"

text \<open>A lab 1 without a state and with two unprocessed signals, and a signal of lab 2.\<close>

definition db_two_labs :: db where
  "db_two_labs =
     \<lparr>lab_states = [],
      raw_signals = [ex_signal 1 1 False, ex_signal 2 1 False, ex_signal 7 2 False],
      distillation_runs = []\<rparr>"

text \<open>Lab 1 at version 2 with five signals folded in and two more waiting; lab 2 at
  version 1.\<close>

definition db_versioned :: db where
  "db_versioned =
     \<lparr>lab_states = [ex_state 1 1 3, ex_state 2 1 1, ex_state 1 2 5],
      raw_signals = [ex_signal 1 1 True, ex_signal 2 1 False, ex_signal 3 1 False],
      distillation_runs = []\<rparr>"

text \<open>Lab 1 with eleven unprocessed signals.\<close>

definition db_eleven :: db where
  "db_eleven =
     \<lparr>lab_states = [],
      raw_signals = map (\<lambda>i. ex_signal i 1 False) [1, 2, 3, 4, 5, 6, 7, 8, 9, 10, 11],
      distillation_runs = []\<rparr>"

text \<open>Lab 1 with every signal processed.\<close>

definition db_all_processed :: db where
  "db_all_processed =
     \<lparr>lab_states = [ex_state 1 1 1], raw_signals = [ex_signal 1 1 True],
      distillation_runs = []\<rparr>"

text \<open>A candidate state with content, as the typing of a response gives it.\<close>

definition ex_candidate :: lab_state_data where
  "ex_candidate =
     create_empty_state
       \<lparr>techniques := [\<lparr>tq_name = ''PCR'', proficiency = Expert, tq_notes = None\<rparr>],
        expertise := [\<lparr>domain = ''molecular biology'', confidence = High\<rparr>],
        signal_count := 99\<rparr>"

text \<open>Services whose response is typed as \<open>ex_candidate\<close> and whose token count is
  always 5000.\<close>

definition ex_candidate_services :: services where
  "ex_candidate_services =
     \<lparr>acompletion = (\<lambda>model current signals. Some ''{}''), json_loads = ex_json_loads,
      model_fields = (\<lambda>j. Some ex_candidate), count_tokens = (\<lambda>d. 5000), utcnow = 77\<rparr>"

section \<open>Lemmas\<close>

lemma fold_latest_mem:
  "fold (\<lambda>x best. if version best < version x then x else best) rs r \<in> set (r # rs)"
  by (induction rs arbitrary: r) auto

lemma fold_latest_ge_start:
  "version r \<le> version (fold (\<lambda>x best. if version best < version x then x else best) rs (r::lab_state))"
proof (induction rs arbitrary: r)
  case Nil
  show ?case by simp
next
  case (Cons a rs)
  show ?case
  proof (cases "version r < version a")
    case True
    with Cons[of a] show ?thesis by simp
  next
    case False
    with Cons[of r] show ?thesis by simp
  qed
qed

lemma fold_latest_ge:
  "x \<in> set rs \<Longrightarrow>
   version x \<le> version (fold (\<lambda>x best. if version best < version x then x else best) rs (r::lab_state))"
proof (induction rs arbitrary: r)
  case Nil
  then show ?case by simp
next
  case (Cons a rs)
  show ?case
  proof (cases "x = a")
    case True
    have "version a \<le> version (if version r < version a then a else r)" by simp
    also have "\<dots> \<le> version (fold (\<lambda>x best. if version best < version x then x else best) rs
                 (if version r < version a then a else r))"
      by (rule fold_latest_ge_start)
    finally show ?thesis using True by simp
  next
    case False
    with Cons.prems have "x \<in> set rs" by simp
    from Cons.IH[OF this] show ?thesis by simp
  qed
qed

lemma latest_state_None:
  "latest_state d lab_id = None \<longleftrightarrow> filter (\<lambda>r. ls_lab_id r = lab_id) (lab_states d) = []"
  by (simp add: latest_state_def split: list.splits)

lemma latest_state_Some:
  assumes "latest_state d lab_id = Some cs"
  shows "cs \<in> set (lab_states d)" and "ls_lab_id cs = lab_id"
    and "\<And>r. r \<in> set (lab_states d) \<Longrightarrow> ls_lab_id r = lab_id \<Longrightarrow> version r \<le> version cs"
proof -
  let ?rows = "filter (\<lambda>r. ls_lab_id r = lab_id) (lab_states d)"
  let ?f = "\<lambda>x best. if version best < version x then x else (best::lab_state)"
  from assms obtain r rs where rows: "?rows = r # rs" and cs: "cs = fold ?f rs r"
    by (auto simp: latest_state_def split: list.splits)
  have mem: "cs \<in> set ?rows" unfolding rows cs by (rule fold_latest_mem)
  then show "cs \<in> set (lab_states d)" and "ls_lab_id cs = lab_id" by auto
  fix x assume "x \<in> set (lab_states d)" "ls_lab_id x = lab_id"
  then have "x \<in> set (r # rs)" unfolding rows[symmetric] by simp
  then show "version x \<le> version cs"
    unfolding cs using fold_latest_ge_start[of r rs] fold_latest_ge[of x rs r] by auto
qed



lemma next_version_fresh:
  "\<not> list_ex (\<lambda>r. ls_lab_id r = lab_id \<and> version r = next_version d lab_id) (lab_states d)"
proof (cases "latest_state d lab_id")
  case None
  then have "filter (\<lambda>r. ls_lab_id r = lab_id) (lab_states d) = []"
    by (simp add: latest_state_None)
  then have "\<forall>r \<in> set (lab_states d). ls_lab_id r \<noteq> lab_id"
    by (simp add: filter_empty_conv)
  then show ?thesis by (auto simp: list_ex_iff)
next
  case (Some cs)
  show ?thesis
  proof
    assume "list_ex (\<lambda>r. ls_lab_id r = lab_id \<and> version r = next_version d lab_id) (lab_states d)"
    then obtain r where r: "r \<in> set (lab_states d)" "ls_lab_id r = lab_id"
      "version r = next_version d lab_id"
      by (auto simp: list_ex_iff)
    from latest_state_Some(3)[OF Some r(1,2)] r(3) Some show False
      by (simp add: next_version_def)
  qed
qed

lemma run_distillation_Inr:
  assumes "run_distillation sv st d lab_id ids = (d', Inr ns)"
  shows "d' = \<lparr>lab_states = lab_states d @ [ns],
               raw_signals = raw_signals (mark_processed d ids),
               distillation_runs = distillation_runs d @
                 [(run_row st d lab_id ids)\<lparr>completed_at := Some (utcnow sv), status := ''completed''\<rparr>]\<rparr>"
    and "ls_lab_id ns = lab_id" and "version ns = next_version d lab_id"
    and "select_signals d ids \<noteq> []"
    and "signal_count (state ns) =
          signal_count (case latest_state d lab_id of Some cs \<Rightarrow> state cs | None \<Rightarrow> create_empty_state)
          + int (length (select_signals d ids))"
  using assms
  by (auto simp: run_distillation_def Let_def finish_run_def mark_processed_def insert_lab_state_def
      run_row_def next_version_def
      split: option.splits if_splits sum.splits)



lemma run_distillation_Inl:
  assumes "run_distillation sv st d lab_id ids = (d', Inl e)"
  shows "(e = NoSignalsFound \<and> d' = d \<and> select_signals d ids = [])
     \<or> (\<exists>c. e = DistillationFailed c \<and> select_signals d ids \<noteq> [] \<and> lab_states d' = lab_states d \<and>
           distillation_runs d' = distillation_runs d @
             [(run_row st d lab_id ids)\<lparr>completed_at := Some (utcnow sv), status := ''failed''\<rparr>])"
  using assms
  by (auto simp: run_distillation_def Let_def finish_run_def mark_processed_def insert_lab_state_def
      run_row_def next_version_def
      split: option.splits if_splits sum.splits)

lemma run_distillation_success:
  assumes "select_signals d ids \<noteq> []"
    and "acompletion sv (setting_llm_model st) (current_data d lab_id)
           (map (\<lambda>s. (signal_type s, content s)) (select_signals d ids)) = Some c"
    and "json_loads sv (response_json_text c) = Some j"
    and "model_validate sv j = Some v"
  shows "run_distillation sv st d lab_id ids =
     (let vs = v\<lparr>signal_count := signal_count (current_data d lab_id) + int (length (select_signals d ids))\<rparr>;
          ns = \<lparr>ls_lab_id = lab_id, version = next_version d lab_id, state = vs,
                token_count = Some (count_tokens sv vs), created_by = Some ''system''\<rparr>
      in (\<lparr>lab_states = lab_states d @ [ns],
           raw_signals = raw_signals (mark_processed d ids),
           distillation_runs = distillation_runs d @
             [(run_row st d lab_id ids)\<lparr>completed_at := Some (utcnow sv), status := ''completed''\<rparr>]\<rparr>,
          Inr ns))"
  using assms next_version_fresh[of lab_id d]
  by (auto simp: run_distillation_def Let_def finish_run_def mark_processed_def insert_lab_state_def
      run_row_def next_version_def current_data_def
      split: option.splits if_splits sum.splits)

lemma next_version_contiguous:
  assumes "versions_contiguous d lab_id"
  shows "next_version d lab_id = int (length (lab_versions d lab_id)) + 1"
proof (cases "latest_state d lab_id")
  case None
  then have "filter (\<lambda>r. ls_lab_id r = lab_id) (lab_states d) = []"
    by (simp add: latest_state_None)
  with None show ?thesis
    by (simp add: next_version_def lab_versions_def)
next
  case (Some cs)
  let ?n = "length (lab_versions d lab_id)"
  have vs: "set (lab_versions d lab_id) = int ` {1..?n}"
  proof -
    have "set (lab_versions d lab_id) = set (map int [1..<Suc ?n])"
      using assms unfolding versions_contiguous_def by simp
    also have "\<dots> = int ` {1..?n}"
      by (simp only: set_map set_upt atLeastLessThanSuc_atLeastAtMost)
    finally show ?thesis .
  qed
  from latest_state_Some[OF Some]
  have mem: "version cs \<in> set (lab_versions d lab_id)"
    and ge: "\<And>v. v \<in> set (lab_versions d lab_id) \<Longrightarrow> v \<le> version cs"
    by (auto simp: lab_versions_def)
  from mem vs have le: "1 \<le> version cs" "version cs \<le> int ?n" by auto
  then have "1 \<le> ?n" by linarith
  then have "int ?n \<in> set (lab_versions d lab_id)" unfolding vs by auto
  from ge[OF this] le have "version cs = int ?n" by simp
  with Some show ?thesis by (simp add: next_version_def)
qed

lemma versions_contiguous_append:
  assumes "versions_contiguous d tenant"
    and "ls_lab_id ns = lab_id" and "version ns = next_version d lab_id"
    and "lab_states d' = lab_states d @ [ns]"
  shows "versions_contiguous d' tenant"
proof (cases "tenant = lab_id")
  case False
  with assms(2,4) have "lab_versions d' tenant = lab_versions d tenant"
    by (auto simp: lab_versions_def)
  with assms(1) show ?thesis by (simp add: versions_contiguous_def)
next
  case True
  let ?n = "length (lab_versions d lab_id)"
  from next_version_contiguous assms(1) True
  have nv: "next_version d lab_id = int ?n + 1" by simp
  have app: "lab_versions d' lab_id = lab_versions d lab_id @ [int ?n + 1]"
    using assms(2-4) nv by (simp add: lab_versions_def)
  have "lab_versions d lab_id @ [int ?n + 1] = map int [1..<Suc ?n] @ [int (Suc ?n)]"
    using assms(1) True unfolding versions_contiguous_def by simp
  also have "\<dots> = map int [1..<Suc (Suc ?n)]" by simp
  finally show ?thesis using True app by (simp add: versions_contiguous_def)
qed

lemma run_distillation_async_cases:
  obtains (unchanged) r where "run_distillation_async sv st d lab_id sids = (d, r)"
      "(r = Inr No_signals) \<or> (\<exists>e. r = Inl e)"
  | (committed) ids d' ns where "run_distillation sv st d lab_id ids = (d', Inr ns)"
      "run_distillation_async sv st d lab_id sids =
         (d', Inr (Completed lab_id (version ns) (token_count ns) (length ids)))"
      "(sids = Some ids \<and> ids \<noteq> []) \<or>
       ((sids = None \<or> sids = Some []) \<and> ids = map sig_id (get_unprocessed_signals d lab_id 10))"
proof -
  let ?ids = "if sids \<noteq> None \<and> sids \<noteq> Some [] then the sids
              else map sig_id (get_unprocessed_signals d lab_id 10)"
  show ?thesis
  proof (cases "(sids = None \<or> sids = Some []) \<and> get_unprocessed_signals d lab_id 10 = []")
    case True
    then have "run_distillation_async sv st d lab_id sids = (d, Inr No_signals)"
      by (auto simp: run_distillation_async_def)
    then show ?thesis by (rule unchanged) simp
  next
    case False
    obtain d' r where run: "run_distillation sv st d lab_id ?ids = (d', r)"
      by (cases "run_distillation sv st d lab_id ?ids")
    have eq: "run_distillation_async sv st d lab_id sids =
        (case run_distillation sv st d lab_id ?ids of
           (session, Inl e) \<Rightarrow> (d, Inl e)
         | (session, Inr new_state) \<Rightarrow>
            (session, Inr (Completed lab_id (version new_state) (token_count new_state)
               (length ?ids))))"
      using False by (cases sids) (auto simp: run_distillation_async_def Let_def)
    show ?thesis
    proof (cases r)
      case (Inl e)
      with run have "run_distillation_async sv st d lab_id sids = (d, Inl e)"
        by (simp only: eq prod.case sum.case)
      then show ?thesis by (rule unchanged) simp
    next
      case (Inr ns)
      with run have a: "run_distillation_async sv st d lab_id sids =
         (d', Inr (Completed lab_id (version ns) (token_count ns) (length ?ids)))"
        by (simp only: eq prod.case sum.case)
      from run Inr have b: "run_distillation sv st d lab_id ?ids = (d', Inr ns)" by simp
      from False have c: "(sids = Some ?ids \<and> ?ids \<noteq> []) \<or>
       ((sids = None \<or> sids = Some []) \<and> ?ids = map sig_id (get_unprocessed_signals d lab_id 10))"
        by auto
      show ?thesis by (rule committed[OF b a c])
    qed
  qed
qed

lemma run_distillation_async_contiguous:
  assumes "versions_contiguous d tenant"
  shows "versions_contiguous (fst (run_distillation_async sv st d lab_id sids)) tenant"
proof (cases rule: run_distillation_async_cases[of sv st d lab_id sids])
  case (unchanged r)
  with assms show ?thesis by simp
next
  case (committed ids d' ns)
  from run_distillation_Inr[OF committed(1)]
  have "ls_lab_id ns = lab_id" "version ns = next_version d lab_id"
    "lab_states d' = lab_states d @ [ns]"
    by simp_all
  from versions_contiguous_append[OF assms this] committed(2) show ?thesis by simp
qed



lemma py_slice_inner: "py_slice xs 1 (- 1) = butlast (tl xs)"
proof (cases xs)
  case Nil
  then show ?thesis by (simp add: py_slice_def)
next
  case (Cons x ys)
  have "py_slice xs 1 (- 1) = take (length ys - 1) ys"
    using Cons by (simp add: py_slice_def Let_def nat_diff_distrib')
  also have "\<dots> = butlast ys" by (simp add: butlast_conv_take)
  finally show ?thesis using Cons by simp
qed

lemma split_nl_nonempty: "split_nl t \<noteq> []"
  by (induction t) auto

lemma join_nl_cons_head: "join_nl ((c # h) # ls) = c # join_nl (h # ls)"
  by (cases ls) auto

lemma join_nl_empty_head: "ls \<noteq> [] \<Longrightarrow> join_nl ([] # ls) = CHR 0x0A # join_nl ls"
  by (cases ls) auto

lemma join_split_nl: "join_nl (split_nl t) = t"
proof (induction t)
  case Nil
  show ?case by simp
next
  case (Cons c cs)
  obtain h ls where r: "split_nl cs = h # ls"
    using split_nl_nonempty[of cs] by (cases "split_nl cs") auto
  show ?case
  proof (cases "c = CHR 0x0A")
    case True
    then show ?thesis using Cons split_nl_nonempty[of cs] by (simp add: join_nl_empty_head)
  next
    case False
    then show ?thesis using Cons r by (simp add: join_nl_cons_head)
  qed
qed

lemma split_nl_single: "CHR 0x0A \<notin> set t \<Longrightarrow> split_nl t = [t]"
  by (induction t) auto

lemma latest_state_appended:
  assumes "lab_states d' = lab_states d @ [ns]" and "ls_lab_id ns = lab_id"
    and "version ns = next_version d lab_id"
  shows "latest_state d' lab_id = Some ns"
proof -
  have old: "version r < version ns" if "r \<in> set (lab_states d)" "ls_lab_id r = lab_id" for r
  proof (cases "latest_state d lab_id")
    case None
    then have "filter (\<lambda>r. ls_lab_id r = lab_id) (lab_states d) = []"
      by (simp add: latest_state_None)
    with that show ?thesis by (auto simp: filter_empty_conv)
  next
    case (Some cs)
    from latest_state_Some(3)[OF Some that] Some assms(3) show ?thesis
      by (simp add: next_version_def)
  qed
  have "filter (\<lambda>r. ls_lab_id r = lab_id) (lab_states d') \<noteq> []"
    using assms(1,2) by simp
  then obtain x where x: "latest_state d' lab_id = Some x"
    by (cases "latest_state d' lab_id") (auto simp: latest_state_None)
  from latest_state_Some[OF x] assms(1,2)
  have mem: "x \<in> set (lab_states d) \<or> x = ns" and lab: "ls_lab_id x = lab_id"
    and ge: "version ns \<le> version x"
    by auto
  from mem show ?thesis
  proof
    assume "x \<in> set (lab_states d)"
    from old[OF this lab] ge show ?thesis by simp
  next
    assume "x = ns"
    with x show ?thesis by simp
  qed
qed

lemma versions_contiguous_distinct:
  assumes "versions_contiguous d lab_id"
  shows "distinct (lab_versions d lab_id)"
proof -
  have "distinct (map int [1..<Suc (length (lab_versions d lab_id))])"
    by (simp add: distinct_map)
  with assms show ?thesis unfolding versions_contiguous_def by simp
qed

lemma insert_lab_state_duplicate:
  "insert_lab_state (d\<lparr>lab_states := before @ [row] @ after\<rparr>)
     (row\<lparr>state := s, token_count := t, created_by := c\<rparr>) = Inl IntegrityError"
  by (simp add: insert_lab_state_def)

lemma select_signals_marked:
  "select_signals (d\<lparr>raw_signals := raw_signals (mark_processed d ids)\<rparr>) ids =
     map (\<lambda>s. s\<lparr>processed := True\<rparr>) (select_signals d ids)"
proof -
  have "filter (\<lambda>s. sig_id s \<in> set ids)
          (map (\<lambda>s. if sig_id s \<in> set ids then s\<lparr>processed := True\<rparr> else s) xs) =
        map (\<lambda>s. s\<lparr>processed := True\<rparr>) (filter (\<lambda>s. sig_id s \<in> set ids) xs)" for xs
    by (induction xs) auto
  then show ?thesis by (simp add: select_signals_def mark_processed_def)
qed

lemma run_distillation_async_Some:
  assumes "ids \<noteq> []"
  shows "run_distillation_async sv st d lab_id (Some ids) =
     (case run_distillation sv st d lab_id ids of
        (session, Inl e) \<Rightarrow> (d, Inl e)
      | (session, Inr new_state) \<Rightarrow>
         (session, Inr (Completed lab_id (version new_state) (token_count new_state) (length ids))))"
  using assms by (simp add: run_distillation_async_def)

lemma select_signals_nonempty_ids: "select_signals d ids \<noteq> [] \<Longrightarrow> ids \<noteq> []"
  by (auto simp: select_signals_def)

lemma insert_stale_or_next:
  assumes "versions_contiguous d tenant" and "k \<le> length (lab_versions d tenant)"
  shows "insert_lab_state d (row\<lparr>ls_lab_id := tenant, version := int k + 1\<rparr>) =
     (if k = length (lab_versions d tenant)
      then Inr (d\<lparr>lab_states := lab_states d @ [row\<lparr>ls_lab_id := tenant, version := int k + 1\<rparr>]\<rparr>)
      else Inl IntegrityError)"
proof -
  let ?n = "length (lab_versions d tenant)"
  have vs: "set (lab_versions d tenant) = int ` {1..?n}"
  proof -
    have "set (lab_versions d tenant) = set (map int [1..<Suc ?n])"
      using assms(1) unfolding versions_contiguous_def by simp
    also have "\<dots> = int ` {1..?n}"
      by (simp only: set_map set_upt atLeastLessThanSuc_atLeastAtMost)
    finally show ?thesis .
  qed
  have ex: "list_ex (\<lambda>r. ls_lab_id r = tenant \<and> version r = int k + 1) (lab_states d)
      \<longleftrightarrow> int k + 1 \<in> set (lab_versions d tenant)"
    by (force simp: list_ex_iff lab_versions_def image_iff)
  have "int k + 1 \<in> int ` {1..?n} \<longleftrightarrow> k < ?n"
  proof
    assume "int k + 1 \<in> int ` {1..?n}"
    then obtain m where "int k + 1 = int m" "m \<le> ?n" by auto
    then show "k < ?n" by linarith
  next
    assume "k < ?n"
    then have "Suc k \<in> {1..?n}" by simp
    then have "int (Suc k) \<in> int ` {1..?n}" by (rule imageI)
    then show "int k + 1 \<in> int ` {1..?n}" by (simp add: add.commute)
  qed
  with ex vs have "list_ex (\<lambda>r. ls_lab_id r = tenant \<and> version r = int k + 1) (lab_states d)
      \<longleftrightarrow> k < ?n" by simp
  with assms(2) show ?thesis by (auto simp: insert_lab_state_def)
qed

lemma invalid_response_fails_run:
  assumes "select_signals d ids \<noteq> []"
    and "completion_of sv st d lab_id ids = Some message_content"
    and "json_loads sv (response_json_text message_content) = None
       \<or> (\<exists>j. json_loads sv (response_json_text message_content) = Some j
              \<and> (model_fields sv j = None
                 \<or> (\<exists>v. model_fields sv j = Some v \<and> \<not> field_constraints_ok v)))"
  shows "\<exists>c d'. run_distillation sv st d lab_id ids = (d', Inl (DistillationFailed c))
       \<and> (c = JSONDecodeError \<or> c = ValidationError)
       \<and> lab_states d' = lab_states d \<and> raw_signals d' = raw_signals d
       \<and> length (distillation_runs d') = Suc (length (distillation_runs d))
       \<and> status (last (distillation_runs d')) = ''failed''
       \<and> completed_at (last (distillation_runs d')) = Some (utcnow sv)
       \<and> run_distillation_async sv st d lab_id (Some ids) = (d, Inl (DistillationFailed c))"
proof -
  let ?d' = "d\<lparr>distillation_runs := distillation_runs d @
             [(run_row st d lab_id ids)\<lparr>completed_at := Some (utcnow sv), status := ''failed''\<rparr>]\<rparr>"
  from assms(3) have "json_loads sv (response_json_text message_content) = None
     \<or> (\<exists>j. json_loads sv (response_json_text message_content) = Some j \<and> model_validate sv j = None)"
    by (auto simp: model_validate_def)
  then have "\<exists>c. (c = JSONDecodeError \<or> c = ValidationError)
      \<and> run_distillation sv st d lab_id ids = (?d', Inl (DistillationFailed c))"
    using assms(1,2)
    by (auto simp: run_distillation_def Let_def finish_run_def run_row_def next_version_def
        completion_of_def current_data_def split: option.splits)
  then obtain c where c: "c = JSONDecodeError \<or> c = ValidationError"
    and run: "run_distillation sv st d lab_id ids = (?d', Inl (DistillationFailed c))"
    by blast
  have "run_distillation_async sv st d lab_id (Some ids) = (d, Inl (DistillationFailed c))"
    using select_signals_nonempty_ids[OF assms(1)] run by (simp add: run_distillation_async_Some)
  with c run show ?thesis by simp
qed

section \<open>The claims\<close>

text \<open>
  C10. When the stripped response text begins with three backquotes, the text handed to
  the JSON parser is the stripped text without its first and without its last line,
  whatever these lines are: with no closing fence the last content line is lost, and a
  response of a single line leaves the empty text. A response that does not begin with
  the fence is parsed as stripped. (The lines of a text are what \<open>split_nl\<close> gives:
  joined with newlines they are the text again.)
\<close>

theorem fenced_response_loses_first_and_last_line:
  "join_nl (split_nl (py_strip message_content)) = py_strip message_content
   \<and> response_json_text message_content =
       (if startswith (py_strip message_content) fence
        then join_nl (butlast (tl (split_nl (py_strip message_content))))
        else py_strip message_content)
   \<and> (startswith (py_strip message_content) fence
        \<and> CHR 0x0A \<notin> set (py_strip message_content)
       \<longrightarrow> response_json_text message_content = [])"
proof -
  let ?t = "py_strip message_content"
  have a: "join_nl (split_nl ?t) = ?t" by (rule join_split_nl)
  have b: "response_json_text message_content =
       (if startswith ?t fence then join_nl (butlast (tl (split_nl ?t))) else ?t)"
    by (simp add: response_json_text_def Let_def py_slice_inner)
  have c: "startswith ?t fence \<and> CHR 0x0A \<notin> set ?t \<longrightarrow> response_json_text message_content = []"
    by (simp add: b split_nl_single)
  from a b c show ?thesis by blast
qed

theorem fenced_response_loses_first_and_last_line_witness:
  "startswith (py_strip (fence @ ''{}'' @ fence)) fence
   \<and> CHR 0x0A \<notin> set (py_strip (fence @ ''{}'' @ fence))
   \<and> response_json_text (fence @ ''{}'' @ fence) = []
   \<and> response_json_text (fence @ ''json'' @ CHR 0x0A # ''{'' @ CHR 0x0A # ''}'') = ''{''
   \<and> response_json_text ('' '' @ fence @ CHR 0x0A # ''{}'' @ CHR 0x0A # fence @ [CHR 0x0A]) = ''{}''
   \<and> response_json_text (CHR 0x0A # ''{}  '') = ''{}''"
proof -
  have h: "startswith (py_strip (fence @ ''{}'' @ fence)) fence
      \<and> CHR 0x0A \<notin> set (py_strip (fence @ ''{}'' @ fence))"
    by code_simp
  from fenced_response_loses_first_and_last_line[of "fence @ ''{}'' @ fence"] h
  have r1: "response_json_text (fence @ ''{}'' @ fence) = []" by blast
  have j2: "join_nl (butlast (tl (split_nl (py_strip (fence @ ''json'' @ CHR 0x0A # ''{'' @ CHR 0x0A # ''}''))))) = ''{''"
    by code_simp
  have f2: "startswith (py_strip (fence @ ''json'' @ CHR 0x0A # ''{'' @ CHR 0x0A # ''}'')) fence"
    by code_simp
  from fenced_response_loses_first_and_last_line[of "fence @ ''json'' @ CHR 0x0A # ''{'' @ CHR 0x0A # ''}''"] j2 f2
  have r3: "response_json_text (fence @ ''json'' @ CHR 0x0A # ''{'' @ CHR 0x0A # ''}'') = ''{''"
    by simp
  have r4: "response_json_text ('' '' @ fence @ CHR 0x0A # ''{}'' @ CHR 0x0A # fence @ [CHR 0x0A]) = ''{}''"
    by code_simp
  have r5: "response_json_text (CHR 0x0A # ''{}  '') = ''{}''" by code_simp
  from h r1 r3 r4 r5 show ?thesis by blast
qed

text \<open>
  C6. When a run succeeds, the signal count of the new state is the signal count of the
  state the run started from (0 for a lab without a state) plus the number of signals
  resolved for the batch, whatever count the compression response carried; it is never
  below the previous count, and the new state is the lab's current state afterwards.
\<close>

theorem signal_count_accumulates:
  assumes "run_distillation sv st d lab_id signal_ids = (d', Inr new_state)"
  shows "signal_count (state new_state) =
           (case latest_state d lab_id of None \<Rightarrow> 0 | Some cs \<Rightarrow> signal_count (state cs))
           + int (length (select_signals d signal_ids))
       \<and> (case latest_state d lab_id of None \<Rightarrow> 0 | Some cs \<Rightarrow> signal_count (state cs))
           \<le> signal_count (state new_state)
       \<and> latest_state d' lab_id = Some new_state"
proof -
  note r = run_distillation_Inr[OF assms]
  have prev: "signal_count (case latest_state d lab_id of Some cs \<Rightarrow> state cs | None \<Rightarrow> create_empty_state)
      = (case latest_state d lab_id of None \<Rightarrow> 0 | Some cs \<Rightarrow> signal_count (state cs))"
    by (simp add: create_empty_state_def split: option.splits)
  have eq: "signal_count (state new_state) =
           (case latest_state d lab_id of None \<Rightarrow> 0 | Some cs \<Rightarrow> signal_count (state cs))
           + int (length (select_signals d signal_ids))"
    using r(5) prev by simp
  have "lab_states d' = lab_states d @ [new_state]" using r(1) by simp
  then have "latest_state d' lab_id = Some new_state"
    using r(2,3) by (rule latest_state_appended)
  with eq show ?thesis by simp
qed

theorem signal_count_accumulates_witness:
  "run_distillation (ex_services (Some (signal_count_text ''99''))) ex_settings db_versioned 1 [2, 3]
     = (fst (run_distillation (ex_services (Some (signal_count_text ''99''))) ex_settings db_versioned 1 [2, 3]),
        Inr \<lparr>ls_lab_id = 1, version = 3, state = create_empty_state\<lparr>signal_count := 7\<rparr>,
             token_count = Some 5000, created_by = Some ''system''\<rparr>)
   \<and> latest_state db_versioned 1 = Some (ex_state 1 2 5)
   \<and> length (select_signals db_versioned [2, 3]) = 2
   \<and> latest_state (fst (run_distillation (ex_services (Some (signal_count_text ''99''))) ex_settings db_versioned 1 [2, 3])) 1
      = Some \<lparr>ls_lab_id = 1, version = 3, state = create_empty_state\<lparr>signal_count := 7\<rparr>,
             token_count = Some 5000, created_by = Some ''system''\<rparr>"
proof -
  let ?run = "run_distillation (ex_services (Some (signal_count_text ''99''))) ex_settings db_versioned 1 [2, 3]"
  let ?ns = "\<lparr>ls_lab_id = 1, version = 3, state = create_empty_state\<lparr>signal_count := 7\<rparr>,
             token_count = Some 5000, created_by = Some ''system''\<rparr>"
  have h: "?run = (fst ?run, Inr ?ns)"
    by code_simp
  have l: "latest_state db_versioned 1 = Some (ex_state 1 2 5)" by code_simp
  have n: "length (select_signals db_versioned [2, 3]) = 2" by code_simp
  from signal_count_accumulates[OF h] have "latest_state (fst ?run) 1 = Some ?ns" by simp
  with h l n show ?thesis by simp
qed

text \<open>
  C1. If the versions of a tenant's state rows are 1, 2, ..., n in the order of insertion,
  they still are after any distillation task, for any lab and with any outcome, and so
  they are distinct. A run that succeeds for the tenant computes its version as 1 without
  a prior state and as the current version plus 1 otherwise, which is n + 1; that
  version is the run row's output version and is appended to the tenant's versions; a
  run that fails adds no state row. Inserting a state row whose lab and version an
  existing row already has is refused with an integrity error: an attempt that computed
  its version k + 1 from the tenant's log when it had k rows is accepted when the log
  still has k rows and refused when the log has grown since.
\<close>

theorem state_versions_contiguous:
  assumes "versions_contiguous d tenant" and "k \<le> length (lab_versions d tenant)"
  shows "versions_contiguous (fst (run_distillation_async sv st d lab_id signal_ids)) tenant
     \<and> distinct (lab_versions (fst (run_distillation_async sv st d lab_id signal_ids)) tenant)
     \<and> (case run_distillation sv st d tenant ids of
          (d', Inr new_state) \<Rightarrow>
             version new_state =
               (case latest_state d tenant of None \<Rightarrow> 1 | Some cs \<Rightarrow> version cs + 1)
             \<and> version new_state = int (length (lab_versions d tenant)) + 1
             \<and> lab_versions d' tenant = lab_versions d tenant @ [version new_state]
             \<and> output_state_version (last (distillation_runs d')) = version new_state
        | (d', Inl e) \<Rightarrow> lab_versions d' tenant = lab_versions d tenant)
     \<and> insert_lab_state (d\<lparr>lab_states := before @ [row] @ after\<rparr>)
          (row\<lparr>state := s, token_count := t, created_by := c\<rparr>) = Inl IntegrityError
     \<and> insert_lab_state d (row\<lparr>ls_lab_id := tenant, version := int k + 1\<rparr>) =
          (if k = length (lab_versions d tenant)
           then Inr (d\<lparr>lab_states :=
                       lab_states d @ [row\<lparr>ls_lab_id := tenant, version := int k + 1\<rparr>]\<rparr>)
           else Inl IntegrityError)"
proof -
  note inv0 = assms(1)
  have inv: "versions_contiguous (fst (run_distillation_async sv st d lab_id signal_ids)) tenant"
    using inv0 by (rule run_distillation_async_contiguous)
  have run: "(case run_distillation sv st d tenant ids of
          (d', Inr new_state) \<Rightarrow>
             version new_state =
               (case latest_state d tenant of None \<Rightarrow> 1 | Some cs \<Rightarrow> version cs + 1)
             \<and> version new_state = int (length (lab_versions d tenant)) + 1
             \<and> lab_versions d' tenant = lab_versions d tenant @ [version new_state]
             \<and> output_state_version (last (distillation_runs d')) = version new_state
        | (d', Inl e) \<Rightarrow> lab_versions d' tenant = lab_versions d tenant)"
  proof (cases "run_distillation sv st d tenant ids")
    case (Pair d' r)
    show ?thesis
    proof (cases r)
      case (Inl e)
      from run_distillation_Inl[of sv st d tenant ids d' e] Pair Inl
      have "lab_states d' = lab_states d" by auto
      with Pair Inl show ?thesis by (simp add: lab_versions_def)
    next
      case (Inr ns)
      with Pair have ok: "run_distillation sv st d tenant ids = (d', Inr ns)" by simp
      note r = run_distillation_Inr[OF ok]
      have v1: "version ns = (case latest_state d tenant of None \<Rightarrow> 1 | Some cs \<Rightarrow> version cs + 1)"
        using r(3) by (simp add: next_version_def split: option.splits)
      have v2: "version ns = int (length (lab_versions d tenant)) + 1"
        using r(3) next_version_contiguous[OF inv0] by simp
      have ls: "lab_states d' = lab_states d @ [ns]" using r(1) by simp
      have v3: "lab_versions d' tenant = lab_versions d tenant @ [version ns]"
        using ls r(2) by (simp add: lab_versions_def)
      have "last (distillation_runs d') =
          (run_row st d tenant ids)\<lparr>completed_at := Some (utcnow sv), status := ''completed''\<rparr>"
        using r(1) by simp
      then have v4: "output_state_version (last (distillation_runs d')) = version ns"
        using r(3) by (simp add: run_row_def)
      from v1 v2 v3 v4 ok show ?thesis by simp
    qed
  qed
  note stale = insert_stale_or_next[OF assms, of row]
  from inv versions_contiguous_distinct[OF inv] run insert_lab_state_duplicate stale
  show ?thesis by blast
qed

theorem state_versions_contiguous_witness:
  "versions_contiguous db_versioned 1
   \<and> lab_versions db_versioned 1 = [1, 2]
   \<and> lab_versions (fst (run_distillation_async (ex_services (Some ''{}'')) ex_settings db_versioned 1 None)) 1
       = [1, 2, 3]
   \<and> versions_contiguous
       (fst (run_distillation_async (ex_services (Some ''{}'')) ex_settings db_versioned 1 None)) 1
   \<and> insert_lab_state db_versioned ((ex_state 1 0 9)\<lparr>ls_lab_id := 1, version := int 1 + 1\<rparr>)
       = Inl IntegrityError"
proof -
  have h: "versions_contiguous db_versioned 1" by code_simp
  have a: "lab_versions db_versioned 1 = [1, 2]" by code_simp
  have k: "1 \<le> length (lab_versions db_versioned 1)" by code_simp
  have b: "lab_versions (fst (run_distillation_async (ex_services (Some ''{}'')) ex_settings db_versioned 1 None)) 1
       = [1, 2, 3]" by code_simp
  note inst = state_versions_contiguous[OF h k, where sv = "ex_services (Some ''{}'')"
      and st = ex_settings and lab_id = 1 and signal_ids = None and row = "ex_state 1 0 9"]
  from inst have c: "versions_contiguous
       (fst (run_distillation_async (ex_services (Some ''{}'')) ex_settings db_versioned 1 None)) 1"
    by blast
  from inst have "insert_lab_state db_versioned ((ex_state 1 0 9)\<lparr>ls_lab_id := 1, version := int 1 + 1\<rparr>)
       = (if 1 = length (lab_versions db_versioned 1)
          then Inr (db_versioned\<lparr>lab_states :=
                 lab_states db_versioned @ [(ex_state 1 0 9)\<lparr>ls_lab_id := 1, version := int 1 + 1\<rparr>]\<rparr>)
          else Inl IntegrityError)"
    by blast
  then have e: "insert_lab_state db_versioned ((ex_state 1 0 9)\<lparr>ls_lab_id := 1, version := int 1 + 1\<rparr>)
       = Inl IntegrityError"
    using a by simp
  from h a b c e show ?thesis by blast
qed

text \<open>
  C3. The database committed by a task is either the database as it was (the task failed,
  or there was nothing to process) or the database with all three changes together: the
  new state row appended, every signal resolved for the batch marked processed (and no
  other signal changed), and the run row appended with status completed and its
  completion time.
\<close>

theorem commit_is_all_or_nothing:
  "(case run_distillation_async sv st d lab_id signal_ids of
      (d', Inl e) \<Rightarrow> d' = d
    | (d', Inr No_signals) \<Rightarrow> d' = d
    | (d', Inr (Completed l v t n)) \<Rightarrow>
        (\<exists>ids new_state.
           d' = \<lparr>lab_states = lab_states d @ [new_state],
                 raw_signals = raw_signals (mark_processed d ids),
                 distillation_runs = distillation_runs d @
                   [(run_row st d lab_id ids)
                      \<lparr>completed_at := Some (utcnow sv), status := ''completed''\<rparr>]\<rparr>
           \<and> ls_lab_id new_state = lab_id \<and> version new_state = v
           \<and> signals_processed (run_row st d lab_id ids) = map sig_id (select_signals d ids)
           \<and> map sig_id (select_signals d' ids) = map sig_id (select_signals d ids)
           \<and> list_all processed (select_signals d' ids)))"
proof (cases rule: run_distillation_async_cases[of sv st d lab_id signal_ids])
  case (unchanged r)
  then show ?thesis by auto
next
  case (committed ids d' ns)
  note r = run_distillation_Inr[OF committed(1)]
  have "select_signals d' ids = select_signals (d\<lparr>raw_signals := raw_signals (mark_processed d ids)\<rparr>) ids"
    unfolding r(1) by (simp add: select_signals_def)
  then have sel: "select_signals d' ids =
      map (\<lambda>s. s\<lparr>processed := True\<rparr>) (select_signals d ids)"
    by (simp add: select_signals_marked)
  have a: "map sig_id (select_signals d' ids) = map sig_id (select_signals d ids)"
    by (simp add: sel comp_def)
  have b: "list_all processed (select_signals d' ids)"
    by (simp add: sel list_all_iff)
  have c: "signals_processed (run_row st d lab_id ids) = map sig_id (select_signals d ids)"
    by (simp add: run_row_def)
  show ?thesis unfolding committed(2) using a b c r(1,2) by auto
qed

theorem commit_is_all_or_nothing_witness:
  "fst (run_distillation_async (ex_services None) ex_settings db_two_labs 1 (Some [1, 2])) = db_two_labs
   \<and> snd (run_distillation_async (ex_services None) ex_settings db_two_labs 1 (Some [1, 2]))
       = Inl (DistillationFailed CompletionFailed)
   \<and> run_distillation_async (ex_services (Some ''{}'')) ex_settings db_two_labs 1 (Some [1, 2])
       = (\<lparr>lab_states =
             [\<lparr>ls_lab_id = 1, version = 1, state = create_empty_state\<lparr>signal_count := 2\<rparr>,
               token_count = Some 5000, created_by = Some ''system''\<rparr>],
           raw_signals = [ex_signal 1 1 True, ex_signal 2 1 True, ex_signal 7 2 False],
           distillation_runs =
             [\<lparr>run_lab_id = 1, input_state_version = None, output_state_version = 1,
               signals_processed = [1, 2], prompt_version = ''v1.0.0'',
               llm_model = ''claude-sonnet-4-20250514'', completed_at = Some 77,
               status = ''completed''\<rparr>]\<rparr>,
          Inr (Completed 1 1 (Some 5000) 2))"
proof -
  let ?fail = "run_distillation_async (ex_services None) ex_settings db_two_labs 1 (Some [1, 2])"
  have e: "?fail = (fst ?fail, Inl (DistillationFailed CompletionFailed))" by code_simp
  have "case ?fail of (d', Inl e) \<Rightarrow> d' = db_two_labs | (d', Inr r) \<Rightarrow> True"
    using commit_is_all_or_nothing[where sv = "ex_services None" and st = ex_settings
        and d = db_two_labs and lab_id = 1 and signal_ids = "Some [1, 2]"]
    by (auto split: prod.splits sum.splits)
  with e have a: "fst ?fail = db_two_labs"
    by (metis (mono_tags, lifting) old.prod.case old.sum.simps(5))
  from e have b: "snd ?fail = Inl (DistillationFailed CompletionFailed)"
    by (metis snd_conv)
  have c: "run_distillation_async (ex_services (Some ''{}'')) ex_settings db_two_labs 1 (Some [1, 2])
       = (\<lparr>lab_states =
             [\<lparr>ls_lab_id = 1, version = 1, state = create_empty_state\<lparr>signal_count := 2\<rparr>,
               token_count = Some 5000, created_by = Some ''system''\<rparr>],
           raw_signals = [ex_signal 1 1 True, ex_signal 2 1 True, ex_signal 7 2 False],
           distillation_runs =
             [\<lparr>run_lab_id = 1, input_state_version = None, output_state_version = 1,
               signals_processed = [1, 2], prompt_version = ''v1.0.0'',
               llm_model = ''claude-sonnet-4-20250514'', completed_at = Some 77,
               status = ''completed''\<rparr>]\<rparr>,
          Inr (Completed 1 1 (Some 5000) 2))"
    by code_simp
  from a b c show ?thesis by blast
qed

text \<open>
  C9. When the token count of the candidate state exceeds the configured budget, the run
  still succeeds and nothing is withheld: the row appended to the lab's states carries
  the validated candidate itself (with the signal count set) and its token count, it is
  the lab's current state afterwards, the signals are marked, the run row is completed,
  the task commits exactly this, and the outcome is the same under any other budget.
\<close>

theorem over_budget_still_commits:
  assumes "select_signals d ids \<noteq> []"
    and "completion_of sv st d lab_id ids = Some message_content"
    and "json_loads sv (response_json_text message_content) = Some j"
    and "model_validate sv j = Some v"
    and "max_state_tokens st
          < count_tokens sv
              (v\<lparr>signal_count :=
                   signal_count (current_data d lab_id) + int (length (select_signals d ids))\<rparr>)"
  shows "(let candidate =
                v\<lparr>signal_count :=
                    signal_count (current_data d lab_id) + int (length (select_signals d ids))\<rparr>;
              new_state =
                \<lparr>ls_lab_id = lab_id, version = next_version d lab_id, state = candidate,
                 token_count = Some (count_tokens sv candidate), created_by = Some ''system''\<rparr>;
              d' =
                \<lparr>lab_states = lab_states d @ [new_state],
                 raw_signals = raw_signals (mark_processed d ids),
                 distillation_runs = distillation_runs d @
                   [(run_row st d lab_id ids)
                      \<lparr>completed_at := Some (utcnow sv), status := ''completed''\<rparr>]\<rparr>
          in run_distillation sv st d lab_id ids = (d', Inr new_state)
           \<and> run_distillation_async sv st d lab_id (Some ids) =
               (d', Inr (Completed lab_id (next_version d lab_id)
                           (Some (count_tokens sv candidate)) (length ids)))
           \<and> latest_state d' lab_id = Some new_state
           \<and> state new_state = candidate
           \<and> max_state_tokens st < count_tokens sv (state new_state)
           \<and> run_distillation sv (st\<lparr>max_state_tokens := budget\<rparr>) d lab_id ids =
               run_distillation sv st d lab_id ids)"
proof -
  let ?candidate = "v\<lparr>signal_count :=
                    signal_count (current_data d lab_id) + int (length (select_signals d ids))\<rparr>"
  let ?ns = "\<lparr>ls_lab_id = lab_id, version = next_version d lab_id, state = ?candidate,
                 token_count = Some (count_tokens sv ?candidate), created_by = Some ''system''\<rparr>"
  let ?d' = "\<lparr>lab_states = lab_states d @ [?ns],
                 raw_signals = raw_signals (mark_processed d ids),
                 distillation_runs = distillation_runs d @
                   [(run_row st d lab_id ids)
                      \<lparr>completed_at := Some (utcnow sv), status := ''completed''\<rparr>]\<rparr>"
  have c: "acompletion sv (setting_llm_model st) (current_data d lab_id)
           (map (\<lambda>s. (signal_type s, content s)) (select_signals d ids)) = Some message_content"
    using assms(2) by (simp add: completion_of_def)
  have ok: "run_distillation sv st d lab_id ids = (?d', Inr ?ns)"
    using run_distillation_success[OF assms(1) c assms(3,4)] by (simp add: Let_def)
  have c': "acompletion sv (setting_llm_model (st\<lparr>max_state_tokens := budget\<rparr>)) (current_data d lab_id)
           (map (\<lambda>s. (signal_type s, content s)) (select_signals d ids)) = Some message_content"
    using c by simp
  have same: "run_distillation sv (st\<lparr>max_state_tokens := budget\<rparr>) d lab_id ids =
             run_distillation sv st d lab_id ids"
    unfolding ok using run_distillation_success[OF assms(1) c' assms(3,4)]
    by (simp add: Let_def run_row_def)
  have task: "run_distillation_async sv st d lab_id (Some ids) =
      (?d', Inr (Completed lab_id (next_version d lab_id)
                           (Some (count_tokens sv ?candidate)) (length ids)))"
    using select_signals_nonempty_ids[OF assms(1)] ok
    by (simp add: run_distillation_async_Some)
  have latest: "latest_state ?d' lab_id = Some ?ns"
    by (rule latest_state_appended[of ?d' d ?ns lab_id]) simp_all
  have over: "max_state_tokens st < count_tokens sv (state ?ns)"
    using assms(5) by simp
  show ?thesis unfolding Let_def using ok task latest over same by simp
qed

theorem over_budget_still_commits_witness:
  "select_signals db_versioned [2, 3] \<noteq> []
   \<and> max_state_tokens ex_settings = 2000
   \<and> run_distillation_async ex_candidate_services ex_settings db_versioned 1 (Some [2, 3])
       = (db_versioned
            \<lparr>lab_states := lab_states db_versioned @
               [\<lparr>ls_lab_id = 1, version = 3, state = ex_candidate\<lparr>signal_count := 7\<rparr>,
                 token_count = Some 5000, created_by = Some ''system''\<rparr>],
             raw_signals := [ex_signal 1 1 True, ex_signal 2 1 True, ex_signal 3 1 True],
             distillation_runs :=
               [\<lparr>run_lab_id = 1, input_state_version = Some 2, output_state_version = 3,
                 signals_processed = [2, 3], prompt_version = ''v1.0.0'',
                 llm_model = ''claude-sonnet-4-20250514'', completed_at = Some 77,
                 status = ''completed''\<rparr>]\<rparr>,
          Inr (Completed 1 3 (Some 5000) 2))
   \<and> state (ex_state 1 2 5) \<noteq> ex_candidate\<lparr>signal_count := 7\<rparr>
   \<and> techniques (ex_candidate\<lparr>signal_count := 7\<rparr>)
       = [\<lparr>tq_name = ''PCR'', proficiency = Expert, tq_notes = None\<rparr>]
   \<and> run_distillation ex_candidate_services (ex_settings\<lparr>max_state_tokens := 1\<rparr>) db_versioned 1 [2, 3]
       = run_distillation ex_candidate_services ex_settings db_versioned 1 [2, 3]"
proof -
  let ?sv = "ex_candidate_services"
  let ?cand = "ex_candidate\<lparr>signal_count :=
       signal_count (current_data db_versioned 1) + int (length (select_signals db_versioned [2, 3]))\<rparr>"
  have h1: "select_signals db_versioned [2, 3] \<noteq> []" by code_simp
  have h2: "completion_of ?sv ex_settings db_versioned 1 [2, 3] = Some ''{}''"
    by (simp add: completion_of_def ex_candidate_services_def)
  have h3: "json_loads ?sv (response_json_text ''{}'') = Some (JDict [])" by code_simp
  have h4: "model_validate ?sv (JDict []) = Some ex_candidate" by code_simp
  have h5: "max_state_tokens ex_settings < count_tokens ?sv ?cand"
    by (simp add: ex_settings_def ex_candidate_services_def)
  have b: "max_state_tokens ex_settings = 2000" by (simp add: ex_settings_def)
  note inst = over_budget_still_commits[OF h1 h2 h3 h4 h5, of 1, unfolded Let_def]
  have cand: "?cand = ex_candidate\<lparr>signal_count := 7\<rparr>" by code_simp
  have nv: "next_version db_versioned 1 = 3" by code_simp
  have tk: "count_tokens ?sv (ex_candidate\<lparr>signal_count := 7\<rparr>) = 5000"
    by (simp add: ex_candidate_services_def)
  have mp: "raw_signals (mark_processed db_versioned [2, 3])
      = [ex_signal 1 1 True, ex_signal 2 1 True, ex_signal 3 1 True]" by code_simp
  have rr: "distillation_runs db_versioned @
      [(run_row ex_settings db_versioned 1 [2, 3])\<lparr>completed_at := Some (utcnow ?sv), status := ''completed''\<rparr>]
      = [\<lparr>run_lab_id = 1, input_state_version = Some 2, output_state_version = 3,
                 signals_processed = [2, 3], prompt_version = ''v1.0.0'',
                 llm_model = ''claude-sonnet-4-20250514'', completed_at = Some 77,
                 status = ''completed''\<rparr>]" by code_simp
  from inst have "run_distillation_async ?sv ex_settings db_versioned 1 (Some [2, 3]) =
      (\<lparr>lab_states = lab_states db_versioned @
          [\<lparr>ls_lab_id = 1, version = next_version db_versioned 1, state = ?cand,
            token_count = Some (count_tokens ?sv ?cand), created_by = Some ''system''\<rparr>],
        raw_signals = raw_signals (mark_processed db_versioned [2, 3]),
        distillation_runs = distillation_runs db_versioned @
          [(run_row ex_settings db_versioned 1 [2, 3])\<lparr>completed_at := Some (utcnow ?sv), status := ''completed''\<rparr>]\<rparr>,
       Inr (Completed 1 (next_version db_versioned 1) (Some (count_tokens ?sv ?cand)) (length [2::nat, 3])))"
    by blast
  then have e1: "run_distillation_async ?sv ex_settings db_versioned 1 (Some [2, 3])
       = (db_versioned
            \<lparr>lab_states := lab_states db_versioned @
               [\<lparr>ls_lab_id = 1, version = 3, state = ex_candidate\<lparr>signal_count := 7\<rparr>,
                 token_count = Some 5000, created_by = Some ''system''\<rparr>],
             raw_signals := [ex_signal 1 1 True, ex_signal 2 1 True, ex_signal 3 1 True],
             distillation_runs :=
               [\<lparr>run_lab_id = 1, input_state_version = Some 2, output_state_version = 3,
                 signals_processed = [2, 3], prompt_version = ''v1.0.0'',
                 llm_model = ''claude-sonnet-4-20250514'', completed_at = Some 77,
                 status = ''completed''\<rparr>]\<rparr>,
          Inr (Completed 1 3 (Some 5000) 2))"
    unfolding cand nv tk mp rr by simp
  have e2: "state (ex_state 1 2 5) \<noteq> ex_candidate\<lparr>signal_count := 7\<rparr>" by code_simp
  have e3: "techniques (ex_candidate\<lparr>signal_count := 7\<rparr>)
       = [\<lparr>tq_name = ''PCR'', proficiency = Expert, tq_notes = None\<rparr>]" by code_simp
  from inst have e4: "run_distillation ?sv (ex_settings\<lparr>max_state_tokens := 1\<rparr>) db_versioned 1 [2, 3]
       = run_distillation ?sv ex_settings db_versioned 1 [2, 3]"
    by blast
  from h1 b e1 e2 e3 e4 show ?thesis by blast
qed

text \<open>
  C7, as stated, fails: a task triggered without signal ids for a lab with no unprocessed
  signal returns the result \<open>no_signals\<close>; it raises nothing.
\<close>

theorem no_unprocessed_signals_is_not_an_error:
  "filter (\<lambda>s. sig_lab_id s = 1 \<and> processed s = False) (raw_signals db_all_processed) = []
   \<and> run_distillation_async (ex_services (Some ''{}'')) ex_settings db_all_processed 1 None
       = (db_all_processed, Inr No_signals)
   \<and> snd (run_distillation_async (ex_services (Some ''{}'')) ex_settings db_all_processed 1 None)
       \<noteq> Inl NoSignalsFound"
  by code_simp

text \<open>
  C7, amended. \<open>run_distillation\<close> raises the no-signals error, and leaves the session
  as it was (no run row, no state row), when the list of ids is empty or no id in it is
  the id of a signal row. A task triggered without ids, or with an empty list, for a lab
  with no unprocessed signal returns \<open>no_signals\<close> and leaves the database as it was.
\<close>

theorem no_signals_outcomes:
  assumes "list_all (\<lambda>s. sig_id s \<notin> set ids) (raw_signals d1)"
    and "filter (\<lambda>s. sig_lab_id s = lab2 \<and> processed s = False) (raw_signals d2) = []"
  shows "run_distillation sv st d1 lab1 ids = (d1, Inl NoSignalsFound)
       \<and> run_distillation sv st d1 lab1 [] = (d1, Inl NoSignalsFound)
       \<and> run_distillation_async sv st d2 lab2 None = (d2, Inr No_signals)
       \<and> run_distillation_async sv st d2 lab2 (Some []) = (d2, Inr No_signals)"
proof -
  have s1: "select_signals d1 ids = []"
    using assms(1) by (simp add: select_signals_def filter_empty_conv list_all_iff)
  have s2: "select_signals d1 [] = []" by (simp add: select_signals_def)
  have a: "run_distillation sv st d1 lab1 ids = (d1, Inl NoSignalsFound)"
    using s1 by (simp add: run_distillation_def)
  have b: "run_distillation sv st d1 lab1 [] = (d1, Inl NoSignalsFound)"
    using s2 by (simp add: run_distillation_def)
  have u: "get_unprocessed_signals d2 lab2 10 = []"
    using assms(2) by (simp add: get_unprocessed_signals_def)
  have c: "run_distillation_async sv st d2 lab2 None = (d2, Inr No_signals)"
    using u by (simp add: run_distillation_async_def)
  have e: "run_distillation_async sv st d2 lab2 (Some []) = (d2, Inr No_signals)"
    using u by (simp add: run_distillation_async_def)
  from a b c e show ?thesis by simp
qed

theorem no_signals_outcomes_witness:
  "list_all (\<lambda>s. sig_id s \<notin> set [8, 9]) (raw_signals db_two_labs)
   \<and> filter (\<lambda>s. sig_lab_id s = 1 \<and> processed s = False) (raw_signals db_all_processed) = []
   \<and> run_distillation (ex_services (Some ''{}'')) ex_settings db_two_labs 1 [8, 9]
       = (db_two_labs, Inl NoSignalsFound)
   \<and> run_distillation (ex_services (Some ''{}'')) ex_settings db_two_labs 1 []
       = (db_two_labs, Inl NoSignalsFound)
   \<and> run_distillation_async (ex_services (Some ''{}'')) ex_settings db_all_processed 1 None
       = (db_all_processed, Inr No_signals)
   \<and> run_distillation_async (ex_services (Some ''{}'')) ex_settings db_all_processed 1 (Some [])
       = (db_all_processed, Inr No_signals)"
proof -
  have h1: "list_all (\<lambda>s. sig_id s \<notin> set [8, 9]) (raw_signals db_two_labs)" by code_simp
  have h2: "filter (\<lambda>s. sig_lab_id s = 1 \<and> processed s = False) (raw_signals db_all_processed) = []"
    by code_simp
  from no_signals_outcomes[OF h1 h2, of "ex_services (Some ''{}'')" ex_settings 1] h1 h2
  show ?thesis by blast
qed

text \<open>
  C2 fails on the code: the signals are selected and marked by id alone. A run for lab 1
  given the id of a signal of lab 2 resolves it, folds it into lab 1's state, lists it
  in the run row and marks it processed.
\<close>

theorem cross_tenant_signal_resolved:
  "map sig_lab_id (select_signals db_two_labs [7]) = [2]
   \<and> snd (run_distillation_async (ex_services (Some ''{}'')) ex_settings db_two_labs 1 (Some [7]))
       = Inr (Completed 1 1 (Some 5000) 1)
   \<and> map (\<lambda>s. (sig_id s, sig_lab_id s, processed s))
        (raw_signals (fst (run_distillation_async (ex_services (Some ''{}'')) ex_settings db_two_labs 1 (Some [7]))))
       = [(1, 1, False), (2, 1, False), (7, 2, True)]
   \<and> map (\<lambda>r. (run_lab_id r, signals_processed r, status r))
        (distillation_runs (fst (run_distillation_async (ex_services (Some ''{}'')) ex_settings db_two_labs 1 (Some [7]))))
       = [(1, [7], ''completed'')]
   \<and> map (\<lambda>r. (ls_lab_id r, version r, signal_count (state r)))
        (lab_states (fst (run_distillation_async (ex_services (Some ''{}'')) ex_settings db_two_labs 1 (Some [7]))))
       = [(1, 1, 1)]"
  by code_simp

text \<open>
  C4 fails on the code: when the completion call raises, \<open>run_distillation\<close> marks the
  run row failed in the session and raises, and the task lets the exception leave the
  session without a commit, so the committed database holds no run row.
\<close>

theorem failed_run_row_not_committed:
  "map (\<lambda>r. (output_state_version r, status r, completed_at r))
      (distillation_runs (fst (run_distillation (ex_services None) ex_settings db_two_labs 1 [1, 2])))
     = [(1, ''failed'', Some 77)]
   \<and> snd (run_distillation (ex_services None) ex_settings db_two_labs 1 [1, 2])
       = Inl (DistillationFailed CompletionFailed)
   \<and> run_distillation_async (ex_services None) ex_settings db_two_labs 1 (Some [1, 2])
       = (db_two_labs, Inl (DistillationFailed CompletionFailed))
   \<and> distillation_runs
        (fst (run_distillation_async (ex_services None) ex_settings db_two_labs 1 (Some [1, 2]))) = []"
  by code_simp

text \<open>
  C8 fails on the code in its last part. A response that does not parse, or that parses
  to a state violating a field constraint (a negative signal count), never becomes a
  state row: the run takes the failure path and sets its run row to failed in the
  session. But the task closes the session without a commit, so no run row with status
  failed is recorded: the committed database has no run row at all.
\<close>

theorem invalid_response_run_row_not_committed:
  "json_loads (ex_services (Some ''not json'')) (response_json_text ''not json'') = None
   \<and> map (\<lambda>r. (output_state_version r, status r, completed_at r))
        (distillation_runs
          (fst (run_distillation (ex_services (Some ''not json'')) ex_settings db_two_labs 1 [1, 2])))
       = [(1, ''failed'', Some 77)]
   \<and> run_distillation_async (ex_services (Some ''not json'')) ex_settings db_two_labs 1 (Some [1, 2])
       = (db_two_labs, Inl (DistillationFailed JSONDecodeError))
   \<and> distillation_runs
        (fst (run_distillation_async (ex_services (Some ''not json'')) ex_settings db_two_labs 1
           (Some [1, 2]))) = []
   \<and> lab_states
        (fst (run_distillation_async (ex_services (Some ''not json'')) ex_settings db_two_labs 1
           (Some [1, 2]))) = []
   \<and> Option.bind
        (json_loads (ex_services (Some (signal_count_text ''-1'')))
           (response_json_text (signal_count_text ''-1'')))
        (model_fields (ex_services (Some (signal_count_text ''-1''))))
       = Some (create_empty_state\<lparr>signal_count := - 1\<rparr>)
   \<and> \<not> field_constraints_ok (create_empty_state\<lparr>signal_count := - 1\<rparr>)
   \<and> map (\<lambda>r. (output_state_version r, status r, completed_at r))
        (distillation_runs
          (fst (run_distillation (ex_services (Some (signal_count_text ''-1''))) ex_settings
             db_two_labs 1 [1, 2])))
       = [(1, ''failed'', Some 77)]
   \<and> run_distillation_async (ex_services (Some (signal_count_text ''-1''))) ex_settings db_two_labs 1
        (Some [1, 2])
       = (db_two_labs, Inl (DistillationFailed ValidationError))
   \<and> distillation_runs
        (fst (run_distillation_async (ex_services (Some (signal_count_text ''-1''))) ex_settings
           db_two_labs 1 (Some [1, 2]))) = []"
  by code_simp

text \<open>
  C5 fails on the code: a task triggered without signal ids for a lab with eleven
  unprocessed signals processes the ten oldest and leaves the eleventh unprocessed.
\<close>

theorem unprocessed_batch_is_limited:
  "length (filter (\<lambda>s. sig_lab_id s = 1 \<and> processed s = False) (raw_signals db_eleven)) = 11
   \<and> map sig_id (get_unprocessed_signals db_eleven 1 10) = [1, 2, 3, 4, 5, 6, 7, 8, 9, 10]
   \<and> snd (run_distillation_async (ex_services (Some ''{}'')) ex_settings db_eleven 1 None)
       = Inr (Completed 1 1 (Some 5000) 10)
   \<and> map (\<lambda>s. (sig_id s, processed s))
        (raw_signals (fst (run_distillation_async (ex_services (Some ''{}'')) ex_settings db_eleven 1 None)))
       = [(1, True), (2, True), (3, True), (4, True), (5, True), (6, True), (7, True), (8, True),
          (9, True), (10, True), (11, False)]"
  by code_simp

end
